theory Spec2Isabelle
  imports Main "HOL-Library.Word"
begin

unbundle bit_operations_syntax

section \<open>Data model of \<open>node-aes-gcm.cc\<close>\<close>

text \<open>
  The module exports two methods, \<open>gcm::Encrypt\<close> and \<open>gcm::Decrypt\<close>. Each receives the
  JavaScript argument vector \<open>info\<close>, validates it, and then drives OpenSSL's EVP interface.
  OpenSSL is not part of the repository: it is a parameter of the model (type \<open>'s evp_lib\<close>
  below), and every call the source makes to it is one application of that parameter.
\<close>

text \<open>
  The machine integers of the source: \<open>size_t\<close> is taken to be 64 bits wide and
  \<open>int\<close> 32 bits, two's complement.
\<close>

type_synonym byte = "8 word"
type_synonym size_t = "64 word"
type_synonym c_int = "32 word"
type_synonym uint32_t = "32 word"

text \<open>A JavaScript value, as far as the argument checks distinguish values.\<close>

datatype js_value = Undefined | Null | Buffer "byte list" | Other

text \<open>\<open>info[i]\<close>; V8 yields \<open>undefined\<close> beyond \<open>info.Length()\<close>.\<close>

definition arg :: "js_value list \<Rightarrow> nat \<Rightarrow> js_value" where
  "arg info i = (if i < length info then info ! i else Undefined)"

fun HasInstance :: "js_value \<Rightarrow> bool" where
  "HasInstance (Buffer bs) = True"
| "HasInstance v = False"

fun IsUndefined :: "js_value \<Rightarrow> bool" where
  "IsUndefined Undefined = True"
| "IsUndefined v = False"

fun IsNull :: "js_value \<Rightarrow> bool" where
  "IsNull Null = True"
| "IsNull v = False"

text \<open>
  \<open>Buffer::Data\<close> and \<open>Buffer::Length\<close>. The source applies them to values that passed
  \<open>Buffer::HasInstance\<close> only. A pointer is the byte sequence it points to, and
  \<open>None\<close> when it is \<open>NULL\<close>; an empty buffer has no storage, and its data pointer is
  \<open>NULL\<close>. The length of a buffer always fits \<open>size_t\<close>, so it is a natural number
  here and becomes a machine word where the source calculates with it.
\<close>

definition ptr :: "byte list \<Rightarrow> byte list option" where
  "ptr bs = (if bs = [] then None else Some bs)"

fun Data :: "js_value \<Rightarrow> byte list option" where
  "Data (Buffer bs) = ptr bs"
| "Data v = None"

fun Length :: "js_value \<Rightarrow> nat" where
  "Length (Buffer bs) = length bs"
| "Length v = 0"

text \<open>
  The two errors the source throws with \<open>Nan::ThrowError\<close>:
  \<open>InvalidArguments\<close> is "Not enough (or wrong) arguments specified. ...",
  \<open>InvalidKeyLength\<close> is "Invalid key length specified. Allowed are 128, 192 and 256 bits.".
\<close>

datatype error = InvalidArguments | InvalidKeyLength

definition AUTH_TAG_LEN :: nat where
  "AUTH_TAG_LEN = 16"

subsection \<open>The EVP interface\<close>

text \<open>The values of \<open>EVP_aes_128_gcm()\<close>, \<open>EVP_aes_192_gcm()\<close>, \<open>EVP_aes_256_gcm()\<close>.\<close>

datatype cipher = EVP_aes_128_gcm | EVP_aes_192_gcm | EVP_aes_256_gcm

text \<open>
  One constructor for each shape of EVP call in the source. An input pointer (cipher,
  key, IV, tag, the \<open>in\<close> of an update) is what it points to, \<open>None\<close> for \<open>NULL\<close>;
  the Boolean of an update call tells whether the \<open>out\<close> pointer is non-\<open>NULL\<close>; an
  \<open>int\<close> argument is a \<open>c_int\<close>. The context pointer is part of the library state.
\<close>

datatype evp_call =
    CIPHER_CTX_new
  | EncryptInit_ex "cipher option" "byte list option" "byte list option"
  | DecryptInit_ex "cipher option" "byte list option" "byte list option"
  | CTRL_GCM_SET_IVLEN c_int
  | CTRL_GCM_GET_TAG c_int
  | CTRL_GCM_SET_TAG c_int "byte list option"
  | EncryptUpdate bool "byte list option" c_int
  | DecryptUpdate bool "byte list option" c_int
  | EncryptFinal_ex
  | DecryptFinal_ex
  | CIPHER_CTX_free

text \<open>
  What a call gives back: its return value (for \<open>EVP_CIPHER_CTX_new\<close>, zero stands for a
  \<open>NULL\<close> context), the bytes it stores through its output pointer, and the value it
  stores into \<open>*outl\<close>, if it stores one. Where the source passes \<open>NULL\<close> for the
  output pointer, the bytes are not stored anywhere.
\<close>

record evp_ret =
  ret :: c_int
  out_bytes :: "byte list"
  outl_store :: "c_int option"

type_synonym 's evp_lib = "evp_call \<Rightarrow> 's \<Rightarrow> evp_ret \<times> 's"

type_synonym evp_log = "(evp_call \<times> evp_ret) list"

text \<open>One call of the library: the state advances and the call is recorded with its answer.\<close>

definition evp :: "'s evp_lib \<Rightarrow> evp_call \<Rightarrow> 's \<times> evp_log \<Rightarrow> evp_ret \<times> 's \<times> evp_log" where
  "evp P c w = (case P c (fst w) of (r, s') \<Rightarrow> (r, s', snd w @ [(c, r)]))"

subsection \<open>Memory\<close>

text \<open>
  A buffer obtained with \<open>new unsigned char[n]\<close> is the memory around its first byte,
  addressed by the offset from it. Its initial content is indeterminate, as is the initial
  value of the local \<open>int outl\<close>: both are inputs of the model.
\<close>

type_synonym memory = "int \<Rightarrow> byte"

record uninit =
  outl0 :: c_int
  out_buf0 :: memory
  tag_buf0 :: memory

definition store :: "memory \<Rightarrow> int \<Rightarrow> byte list \<Rightarrow> memory" where
  "store m off bs = (\<lambda>a. if off \<le> a \<and> a < off + int (length bs) then bs ! nat (a - off) else m a)"

text \<open>
  \<open>Nan::CopyBuffer(p, n)\<close>: the \<open>n\<close> bytes from \<open>p\<close> on. The copy, like the
  allocations with \<open>new\<close>, is taken to succeed.
\<close>

definition CopyBuffer :: "memory \<Rightarrow> uint32_t \<Rightarrow> byte list" where
  "CopyBuffer m n = map (\<lambda>i. m (int i)) [0..<unat n]"

text \<open>The assignment through \<open>&outl\<close>: the variable keeps its value when the call stores none.\<close>

definition set_outl :: "evp_ret \<Rightarrow> c_int \<Rightarrow> c_int" where
  "set_outl r outl = (case outl_store r of None \<Rightarrow> outl | Some v \<Rightarrow> v)"

subsection \<open>Integer conversions and the buffer size\<close>

text \<open>A \<open>size_t\<close> passed for an \<open>int\<close> parameter keeps its low 32 bits.\<close>

definition to_int :: "size_t \<Rightarrow> c_int" where
  "to_int n = ucast n"

text \<open>An \<open>int\<close> assigned or added to a \<open>size_t\<close> is sign-extended.\<close>

definition to_size_t :: "c_int \<Rightarrow> size_t" where
  "to_size_t n = scast n"

text \<open>
  \<open>(((len - 1) / blk) + 1) * blk\<close> on \<open>size_t\<close>: the source sizes the output buffer
  with it, with \<open>blk = key_len\<close> in \<open>Encrypt\<close> and \<open>blk = 16\<close> in \<open>Decrypt\<close>.
\<close>

definition padded_len :: "size_t \<Rightarrow> size_t \<Rightarrow> size_t" where
  "padded_len len blk = (((len - 1) div blk) + 1) * blk"

text \<open>The \<open>switch (key_len)\<close> of both methods.\<close>

definition cipher_for :: "nat \<Rightarrow> cipher option" where
  "cipher_for key_len =
     (if key_len = 16 then Some EVP_aes_128_gcm
      else if key_len = 24 then Some EVP_aes_192_gcm
      else if key_len = 32 then Some EVP_aes_256_gcm
      else None)"

section \<open>\<open>gcm::Encrypt\<close>\<close>

text \<open>
  The size of the array allocated for the ciphertext (line 94 of the source), for a key
  and a plaintext of the given lengths.
\<close>

definition Encrypt_alloc :: "nat \<Rightarrow> nat \<Rightarrow> size_t" where
  "Encrypt_alloc key_len plaintext_len = padded_len (of_nat plaintext_len) (of_nat key_len)"

record encrypt_result =
  ciphertext :: "byte list"
  auth_tag :: "byte list"

text \<open>
  The result is the thrown error or the returned object, the library state after the
  call, and the EVP calls made, in order.
\<close>

definition Encrypt ::
  "'s evp_lib \<Rightarrow> uninit \<Rightarrow> js_value list \<Rightarrow> 's \<Rightarrow> (error + encrypt_result) \<times> 's \<times> evp_log" where
  "Encrypt P u info s =
    (if length info < 4 \<or>
        \<not> HasInstance (arg info 0) \<or>
        \<not> HasInstance (arg info 1) \<or>
        \<not> HasInstance (arg info 2) \<or>
        \<not> (IsUndefined (arg info 3) \<or> IsNull (arg info 3) \<or> HasInstance (arg info 3))
     then (Inl InvalidArguments, s, [])
     else
       let key = Data (arg info 0);
           key_len = Length (arg info 0)
       in case cipher_for key_len of
            None \<Rightarrow> (Inl InvalidKeyLength, s, [])
          | Some cipher_type \<Rightarrow>
              let iv = Data (arg info 1);
                  iv_len = Length (arg info 1);
                  plaintext = Data (arg info 2);
                  plaintext_len = Length (arg info 2);
                  ciphertext_len = Encrypt_alloc key_len plaintext_len;
                  ciphertext = out_buf0 u;
                  hasAuthData = HasInstance (arg info 3);
                  aad = Data (arg info 3);
                  aad_len = (if hasAuthData then Length (arg info 3) else 0);
                  auth_tag = tag_buf0 u;
                  w = snd (evp P CIPHER_CTX_new (s, []));
                  w = snd (evp P (EncryptInit_ex (Some cipher_type) None None) w);
                  w = snd (evp P (CTRL_GCM_SET_IVLEN (to_int (of_nat iv_len))) w);
                  w = snd (evp P (EncryptInit_ex None key iv) w);
                  outl = outl0 u;
                  (outl, w) =
                     (if hasAuthData
                      then let (r, w) = evp P (EncryptUpdate False aad (to_int (of_nat aad_len))) w
                           in (set_outl r outl, w)
                      else (outl, w));
                  (r, w) = evp P (EncryptUpdate True plaintext (to_int (of_nat plaintext_len))) w;
                  ciphertext = store ciphertext 0 (out_bytes r);
                  outl = set_outl r outl;
                  ciphertext_len = to_size_t outl;
                  (r, w) = evp P EncryptFinal_ex w;
                  ciphertext = store ciphertext (sint outl) (out_bytes r);
                  outl = set_outl r outl;
                  ciphertext_len = ciphertext_len + to_size_t outl;
                  (r, w) = evp P (CTRL_GCM_GET_TAG (of_nat AUTH_TAG_LEN)) w;
                  auth_tag = store auth_tag 0 (out_bytes r);
                  w = snd (evp P CIPHER_CTX_free w)
              in (Inr \<lparr>ciphertext = CopyBuffer ciphertext (ucast ciphertext_len),
                       auth_tag = CopyBuffer auth_tag (of_nat AUTH_TAG_LEN)\<rparr>, w))"

section \<open>\<open>gcm::Decrypt\<close>\<close>

text \<open>The size of the array allocated for the plaintext (line 208 of the source).\<close>

definition Decrypt_alloc :: "nat \<Rightarrow> size_t" where
  "Decrypt_alloc ciphertext_len = padded_len (of_nat ciphertext_len) 16"

record decrypt_result =
  plaintext :: "byte list"
  auth_ok :: bool

definition Decrypt ::
  "'s evp_lib \<Rightarrow> uninit \<Rightarrow> js_value list \<Rightarrow> 's \<Rightarrow> (error + decrypt_result) \<times> 's \<times> evp_log" where
  "Decrypt P u info s =
    (if length info < 5 \<or>
        \<not> HasInstance (arg info 0) \<or>
        \<not> HasInstance (arg info 1) \<or>
        \<not> HasInstance (arg info 2) \<or>
        \<not> (IsUndefined (arg info 3) \<or> IsNull (arg info 3) \<or> HasInstance (arg info 3)) \<or>
        \<not> HasInstance (arg info 4) \<or>
        Length (arg info 4) \<noteq> AUTH_TAG_LEN
     then (Inl InvalidArguments, s, [])
     else
       let key = Data (arg info 0);
           key_len = Length (arg info 0)
       in case cipher_for key_len of
            None \<Rightarrow> (Inl InvalidKeyLength, s, [])
          | Some cipher_type \<Rightarrow>
              let iv = Data (arg info 1);
                  iv_len = Length (arg info 1);
                  ciphertext = Data (arg info 2);
                  ciphertext_len = Length (arg info 2);
                  plaintext_len = Decrypt_alloc ciphertext_len;
                  plaintext = out_buf0 u;
                  hasAuthData = HasInstance (arg info 3);
                  aad = Data (arg info 3);
                  aad_len = (if hasAuthData then Length (arg info 3) else 0);
                  auth_tag = Data (arg info 4);
                  w = snd (evp P CIPHER_CTX_new (s, []));
                  w = snd (evp P (DecryptInit_ex (Some cipher_type) None None) w);
                  w = snd (evp P (CTRL_GCM_SET_IVLEN (to_int (of_nat iv_len))) w);
                  w = snd (evp P (DecryptInit_ex None key iv) w);
                  outl = outl0 u;
                  (outl, w) =
                     (if hasAuthData
                      then let (r, w) = evp P (DecryptUpdate False aad (to_int (of_nat aad_len))) w
                           in (set_outl r outl, w)
                      else (outl, w));
                  (r, w) = evp P (DecryptUpdate True ciphertext (to_int (of_nat ciphertext_len))) w;
                  plaintext = store plaintext 0 (out_bytes r);
                  outl = set_outl r outl;
                  plaintext_len = to_size_t outl;
                  w = snd (evp P (CTRL_GCM_SET_TAG (of_nat AUTH_TAG_LEN) auth_tag) w);
                  (r, w) = evp P DecryptFinal_ex w;
                  auth_ok = (ret r \<noteq> 0);
                  plaintext = store plaintext (sint outl) (out_bytes r);
                  outl = set_outl r outl;
                  plaintext_len = plaintext_len + to_size_t outl;
                  w = snd (evp P CIPHER_CTX_free w)
              in (Inr \<lparr>plaintext = CopyBuffer plaintext (ucast plaintext_len),
                       auth_ok = auth_ok\<rparr>, w))"

text \<open>The two observations of a run: what the method gave back, and the EVP calls it made.\<close>

abbreviation outcome :: "'r \<times> 's \<times> evp_log \<Rightarrow> 'r" where
  "outcome x \<equiv> fst x"

abbreviation trace :: "'r \<times> 's \<times> evp_log \<Rightarrow> evp_log" where
  "trace x \<equiv> snd (snd x)"

section \<open>The call sequences of the specification\<close>

text \<open>
  The specification orders the states of a context (section 4.2): cipher, key and IV are
  bound; associated data are absorbed, if there are any; the primary buffer is processed;
  the operation is finalized, the tag being read after the finalization when sealing and
  set before it when opening. \<open>seal_calls\<close> and \<open>open_calls\<close> are this order written
  as EVP calls with the arguments the two methods have at hand, each buffer by its data
  pointer; \<open>aad = None\<close> stands for absent associated data. They are what the two
  methods are compared with.
\<close>

fun aad_of :: "js_value \<Rightarrow> byte list option" where
  "aad_of (Buffer bs) = Some bs"
| "aad_of v = None"

definition seal_calls ::
  "cipher \<Rightarrow> byte list \<Rightarrow> byte list \<Rightarrow> byte list option \<Rightarrow> byte list \<Rightarrow> evp_call list" where
  "seal_calls c key iv aad p =
     [CIPHER_CTX_new,
      EncryptInit_ex (Some c) None None,
      CTRL_GCM_SET_IVLEN (to_int (of_nat (length iv))),
      EncryptInit_ex None (ptr key) (ptr iv)] @
     (case aad of
        None \<Rightarrow> []
      | Some a \<Rightarrow> [EncryptUpdate False (ptr a) (to_int (of_nat (length a)))]) @
     [EncryptUpdate True (ptr p) (to_int (of_nat (length p))),
      EncryptFinal_ex,
      CTRL_GCM_GET_TAG 16,
      CIPHER_CTX_free]"

definition open_calls ::
  "cipher \<Rightarrow> byte list \<Rightarrow> byte list \<Rightarrow> byte list option \<Rightarrow> byte list \<Rightarrow> byte list \<Rightarrow> evp_call list" where
  "open_calls c key iv aad ct tag =
     [CIPHER_CTX_new,
      DecryptInit_ex (Some c) None None,
      CTRL_GCM_SET_IVLEN (to_int (of_nat (length iv))),
      DecryptInit_ex None (ptr key) (ptr iv)] @
     (case aad of
        None \<Rightarrow> []
      | Some a \<Rightarrow> [DecryptUpdate False (ptr a) (to_int (of_nat (length a)))]) @
     [DecryptUpdate True (ptr ct) (to_int (of_nat (length ct))),
      CTRL_GCM_SET_TAG 16 (ptr tag),
      DecryptFinal_ex,
      CIPHER_CTX_free]"

text \<open>The library driven through a list of calls from a state: each call with its answer.\<close>

fun evp_run :: "'s evp_lib \<Rightarrow> evp_call list \<Rightarrow> 's \<Rightarrow> evp_log" where
  "evp_run P [] s = []"
| "evp_run P (c # cs) s = (c, fst (P c s)) # evp_run P cs (snd (P c s))"

text \<open>The answer recorded for a call; a failure that stores nothing when the call was not made.\<close>

definition answer :: "evp_log \<Rightarrow> evp_call \<Rightarrow> evp_ret" where
  "answer L c =
     (case map_of L c of
        Some r \<Rightarrow> r
      | None \<Rightarrow> \<lparr>ret = 0, out_bytes = [], outl_store = None\<rparr>)"

text \<open>
  An update with a \<open>NULL\<close> output pointer is how associated data is handed to the library.
\<close>

fun is_aad_update :: "evp_call \<Rightarrow> bool" where
  "is_aad_update (EncryptUpdate out inp inl) = (\<not> out)"
| "is_aad_update (DecryptUpdate out inp inl) = (\<not> out)"
| "is_aad_update c = False"

text \<open>
  What GCM reports as produced: as many bytes as the update of the primary buffer was
  given, and none at the finalization.
\<close>

fun gcm_reports :: "evp_call \<times> evp_ret \<Rightarrow> bool" where
  "gcm_reports (EncryptUpdate True inp inl, r) = (outl_store r = Some inl)"
| "gcm_reports (DecryptUpdate True inp inl, r) = (outl_store r = Some inl)"
| "gcm_reports (EncryptFinal_ex, r) = (outl_store r = Some 0)"
| "gcm_reports (DecryptFinal_ex, r) = (outl_store r = Some 0)"
| "gcm_reports (c, r) = True"


text \<open>
  The number of bytes the library reports as produced over a run: the sum of the values
  stored into \<open>*outl\<close> by the updates of the primary buffer and by the finalization,
  in the arithmetic of \<open>int\<close>; \<open>None\<close> when one of these calls stored no value.
\<close>

fun produces_output :: "evp_call \<Rightarrow> bool" where
  "produces_output (EncryptUpdate out inp inl) = out"
| "produces_output (DecryptUpdate out inp inl) = out"
| "produces_output EncryptFinal_ex = True"
| "produces_output DecryptFinal_ex = True"
| "produces_output c = False"

fun produced :: "evp_log \<Rightarrow> c_int option" where
  "produced [] = Some 0"
| "produced ((c, r) # L) =
     (if produces_output c
      then (case (outl_store r, produced L) of
              (Some n, Some m) \<Rightarrow> Some (n + m)
            | _ \<Rightarrow> None)
      else produced L)"

text \<open>
  The library seals and opens correctly at one input: driven through the sealing
  sequence from state \<open>s\<close> it yields a ciphertext as long as the plaintext and a 16-byte
  tag, and driven through the opening sequence from state \<open>s'\<close> with that ciphertext
  and tag it yields the plaintext again and accepts the tag. This is the property of
  AES-GCM that the round trip of the two methods rests on; it speaks of the library only.
\<close>

definition seal_open_correct ::
  "'s evp_lib \<Rightarrow> 's \<Rightarrow> 's \<Rightarrow> cipher \<Rightarrow> byte list \<Rightarrow> byte list \<Rightarrow> byte list option \<Rightarrow> byte list \<Rightarrow> bool" where
  "seal_open_correct P s s' c key iv aad p =
     (let n = to_int (of_nat (length p));
          L = evp_run P (seal_calls c key iv aad p) s;
          ru = answer L (EncryptUpdate True (ptr p) n);
          rf = answer L EncryptFinal_ex;
          rt = answer L (CTRL_GCM_GET_TAG 16);
          ct = out_bytes ru;
          tag = out_bytes rt;
          L' = evp_run P (open_calls c key iv aad ct tag) s';
          ru' = answer L' (DecryptUpdate True (ptr ct) n);
          rf' = answer L' DecryptFinal_ex
      in outl_store ru = Some n \<and> length ct = length p \<and>
         outl_store rf = Some 0 \<and> out_bytes rf = [] \<and>
         length tag = 16 \<and>
         outl_store ru' = Some n \<and> out_bytes ru' = p \<and>
         outl_store rf' = Some 0 \<and> out_bytes rf' = [] \<and>
         ret rf' \<noteq> 0)"

section \<open>Libraries to run the methods on\<close>



text \<open>
  A library whose every call fails: it returns 0, writes nothing and stores no length.
\<close>

definition failing_evp :: "unit evp_lib" where
  "failing_evp c s = (\<lparr>ret = 0, out_bytes = [], outl_store = None\<rparr>, s)"

text \<open>
  A small stand-in for an AEAD with the interface of the EVP calls: the primary buffer is
  XORed with a byte derived from key and IV, and the tag is sixteen copies of a checksum
  of key, IV, associated data and ciphertext. As with the library itself, a \<open>NULL\<close> key
  or IV in an init call leaves the one of the context as it is, and an update, a
  finalization or a reading of the tag on a context that has no IV fails. It has none of
  the strength of AES-GCM and serves to run the two methods on concrete inputs.
\<close>

record xor_ctx =
  x_key :: "byte list"
  x_iv :: "byte list option"
  x_aad :: "byte list"
  x_ct :: "byte list"
  x_tag :: "byte list"

fun deref :: "byte list option \<Rightarrow> byte list" where
  "deref None = []"
| "deref (Some b) = b"

definition bytes_at :: "byte list option \<Rightarrow> c_int \<Rightarrow> byte list" where
  "bytes_at p n = take (unat n) (deref p)"

definition xor_mask :: "xor_ctx \<Rightarrow> byte" where
  "xor_mask s = foldr (XOR) (x_key s @ deref (x_iv s)) 90"

definition xor_tag :: "xor_ctx \<Rightarrow> byte list" where
  "xor_tag s = replicate 16 (foldr (XOR) (x_key s @ deref (x_iv s) @ x_aad s @ x_ct s) 165)"

definition evp_ok :: evp_ret where
  "evp_ok = \<lparr>ret = 1, out_bytes = [], outl_store = None\<rparr>"

definition evp_failed :: evp_ret where
  "evp_failed = \<lparr>ret = 0, out_bytes = [], outl_store = Some 0\<rparr>"

fun xor_evp :: "xor_ctx evp_lib" where
  "xor_evp CIPHER_CTX_new s =
     (evp_ok, \<lparr>x_key = [], x_iv = None, x_aad = [], x_ct = [], x_tag = []\<rparr>)"
| "xor_evp (EncryptInit_ex c k i) s =
     (evp_ok, s\<lparr>x_key := (case k of None \<Rightarrow> x_key s | Some b \<Rightarrow> b),
                x_iv := (case i of None \<Rightarrow> x_iv s | Some b \<Rightarrow> Some b)\<rparr>)"
| "xor_evp (DecryptInit_ex c k i) s =
     (evp_ok, s\<lparr>x_key := (case k of None \<Rightarrow> x_key s | Some b \<Rightarrow> b),
                x_iv := (case i of None \<Rightarrow> x_iv s | Some b \<Rightarrow> Some b)\<rparr>)"
| "xor_evp (CTRL_GCM_SET_IVLEN n) s = (evp_ok, s)"
| "xor_evp (CTRL_GCM_GET_TAG n) s =
     (if x_iv s = None then (\<lparr>ret = 0, out_bytes = [], outl_store = None\<rparr>, s)
      else (\<lparr>ret = 1, out_bytes = take (unat n) (xor_tag s), outl_store = None\<rparr>, s))"
| "xor_evp (CTRL_GCM_SET_TAG n t) s = (evp_ok, s\<lparr>x_tag := bytes_at t n\<rparr>)"
| "xor_evp (EncryptUpdate out inp n) s =
     (if x_iv s = None then (evp_failed, s)
      else if out
      then (\<lparr>ret = 1, out_bytes = map (\<lambda>b. b XOR xor_mask s) (bytes_at inp n),
             outl_store = Some n\<rparr>,
            s\<lparr>x_ct := x_ct s @ map (\<lambda>b. b XOR xor_mask s) (bytes_at inp n)\<rparr>)
      else (\<lparr>ret = 1, out_bytes = [], outl_store = Some n\<rparr>,
            s\<lparr>x_aad := x_aad s @ bytes_at inp n\<rparr>))"
| "xor_evp (DecryptUpdate out inp n) s =
     (if x_iv s = None then (evp_failed, s)
      else if out
      then (\<lparr>ret = 1, out_bytes = map (\<lambda>b. b XOR xor_mask s) (bytes_at inp n),
             outl_store = Some n\<rparr>,
            s\<lparr>x_ct := x_ct s @ bytes_at inp n\<rparr>)
      else (\<lparr>ret = 1, out_bytes = [], outl_store = Some n\<rparr>,
            s\<lparr>x_aad := x_aad s @ bytes_at inp n\<rparr>))"
| "xor_evp EncryptFinal_ex s =
     (if x_iv s = None then (evp_failed, s)
      else (\<lparr>ret = 1, out_bytes = [], outl_store = Some 0\<rparr>, s))"
| "xor_evp DecryptFinal_ex s =
     (if x_iv s = None then (evp_failed, s)
      else (\<lparr>ret = (if x_tag s = xor_tag s then 1 else 0), out_bytes = [],
             outl_store = Some 0\<rparr>, s))"
| "xor_evp CIPHER_CTX_free s = (evp_ok, s)"

text \<open>Concrete inputs: zeroed memory, and the scenario "hello" under a zero key and IV.\<close>

definition zero_uninit :: uninit where
  "zero_uninit = \<lparr>outl0 = 0, out_buf0 = (\<lambda>a. 0), tag_buf0 = (\<lambda>a. 0)\<rparr>"

definition xor_ctx0 :: xor_ctx where
  "xor_ctx0 = \<lparr>x_key = [], x_iv = None, x_aad = [], x_ct = [], x_tag = []\<rparr>"

definition key16 :: "byte list" where
  "key16 = [0, 0, 0, 0, 0, 0, 0, 0, 0, 0, 0, 0, 0, 0, 0, 0]"


definition key15 :: "byte list" where
  "key15 = [0, 0, 0, 0, 0, 0, 0, 0, 0, 0, 0, 0, 0, 0, 0]"

definition iv12 :: "byte list" where
  "iv12 = [0, 0, 0, 0, 0, 0, 0, 0, 0, 0, 0, 0]"

definition tag12 :: "byte list" where
  "tag12 = [0, 0, 0, 0, 0, 0, 0, 0, 0, 0, 0, 0]"

definition tag16 :: "byte list" where
  "tag16 = [0, 0, 0, 0, 0, 0, 0, 0, 0, 0, 0, 0, 0, 0, 0, 0]"

definition hello :: "byte list" where
  "hello = [104, 101, 108, 108, 111]"

section \<open>Auxiliary facts\<close>

lemma length_CopyBuffer: "length (CopyBuffer m n) = unat n"
  by (simp add: CopyBuffer_def)

lemma store_nil: "store m off [] = m"
  by (auto simp: store_def fun_eq_iff)

lemma CopyBuffer_store: "unat n = length bs \<Longrightarrow> CopyBuffer (store m 0 bs) n = bs"
  by (auto simp: CopyBuffer_def store_def intro: nth_equalityI)

lemma CopyBuffer_0: "CopyBuffer m 0 = []"
  by (simp add: CopyBuffer_def)

lemma CopyBuffer_const: "CopyBuffer (\<lambda>a. b) n = replicate (unat n) b"
  by (simp add: CopyBuffer_def map_replicate_const)

text \<open>Sign extension to \<open>size_t\<close>, addition there, and the cast to \<open>uint32_t\<close> add up in 32 bits.\<close>

lemma narrow_sum: "(ucast (to_size_t a + to_size_t b) :: uint32_t) = a + b"
proof -
  have "to_size_t a + to_size_t b = (word_of_int (sint a + sint b) :: size_t)"
    by (simp add: to_size_t_def)
  then have "(ucast (to_size_t a + to_size_t b) :: uint32_t) = word_of_int (sint a + sint b)"
    by (simp only: ucast_down_wi [OF is_down [THEN iffD2]] len_of_numeral_defs)
  then show ?thesis by simp
qed

lemma to_int_of_nat: "to_int (of_nat n) = of_nat n"
proof -
  have "to_int (of_nat n) = (ucast (word_of_int (int n) :: size_t) :: c_int)"
    by (simp add: to_int_def)
  also have "\<dots> = word_of_int (int n)"
    by (simp only: ucast_down_wi [OF is_down [THEN iffD2]] len_of_numeral_defs)
  finally show ?thesis by simp
qed

lemma unat_to_int: "n < 2 ^ 32 \<Longrightarrow> unat (to_int (of_nat n)) = n"
  by (simp add: to_int_of_nat unat_of_nat)

lemma map_fst_evp_run: "map fst (evp_run P cs s) = cs"
  by (induction cs arbitrary: s) simp_all

lemma cipher_for_key16: "cipher_for (length key16) = Some EVP_aes_128_gcm"
  by (simp add: cipher_for_def key16_def)


text \<open>
  With valid arguments, a method makes the calls of its sequence, in that order.
  Arguments beyond the fourth, or the fifth, are not looked at.
\<close>

lemma Encrypt_trace:
  assumes "cipher_for (length key) = Some c" and "IsUndefined a \<or> IsNull a \<or> HasInstance a"
  shows "trace (Encrypt P u (Buffer key # Buffer iv # Buffer p # a # rest) s) =
         evp_run P (seal_calls c key iv (aad_of a) p) s"
  using assms
  by (cases a)
     (simp_all add: Encrypt_def arg_def Let_def split_def evp_def seal_calls_def AUTH_TAG_LEN_def)

lemma Decrypt_trace:
  assumes "cipher_for (length key) = Some c" and "IsUndefined a \<or> IsNull a \<or> HasInstance a"
    and "length tag = 16"
  shows "trace (Decrypt P u (Buffer key # Buffer iv # Buffer ct # a # Buffer tag # rest) s) =
         evp_run P (open_calls c key iv (aad_of a) ct tag) s"
  using assms
  by (cases a)
     (simp_all add: Decrypt_def arg_def Let_def split_def evp_def open_calls_def AUTH_TAG_LEN_def)


lemma Decrypt_returns:
  assumes "cipher_for (length key) = Some c" and "IsUndefined a \<or> IsNull a \<or> HasInstance a"
    and "length tag = 16"
  shows "\<exists>d. outcome (Decrypt P u (Buffer key # Buffer iv # Buffer ct # a # Buffer tag # rest) s)
             = Inr d"
  using assms by (simp add: Decrypt_def arg_def Let_def split_def AUTH_TAG_LEN_def)

text \<open>The verdict of \<open>Decrypt\<close> is the return value of the finalization, read as a Boolean.\<close>

lemma Decrypt_verdict:
  assumes "cipher_for (length key) = Some c" and "IsUndefined a \<or> IsNull a \<or> HasInstance a"
    and "length tag = 16"
    and "outcome (Decrypt P u (Buffer key # Buffer iv # Buffer ct # a # Buffer tag # rest) s) = Inr d"
  shows "auth_ok d =
    (ret (answer (trace (Decrypt P u (Buffer key # Buffer iv # Buffer ct # a # Buffer tag # rest) s))
            DecryptFinal_ex) \<noteq> 0)"
  using assms
  by (cases a)
     (auto simp add: Decrypt_def arg_def Let_def split_def evp_def answer_def AUTH_TAG_LEN_def)

text \<open>The length of the returned buffer is the sum of the two lengths the library stored.\<close>

lemma Encrypt_length_produced:
  "outcome (Encrypt P u info s) = Inr e \<Longrightarrow> produced (trace (Encrypt P u info s)) = Some l \<Longrightarrow>
   length (ciphertext e) = unat l"
  by (auto simp: Encrypt_def Let_def split_def evp_def length_CopyBuffer
      narrow_sum set_outl_def split: if_splits option.splits)

lemma Decrypt_length_produced:
  "outcome (Decrypt P u info s) = Inr d \<Longrightarrow> produced (trace (Decrypt P u info s)) = Some l \<Longrightarrow>
   length (plaintext d) = unat l"
  by (auto simp: Decrypt_def Let_def split_def evp_def length_CopyBuffer
      narrow_sum set_outl_def split: if_splits option.splits)










text \<open>
  The size computation on lengths from 1 on that leave room for a block below
  \<open>2\<^sup>6\<^sup>4\<close>, and block sizes up to 32: no operation wraps, and the result is the
  length rounded up to a multiple of the block.
\<close>

lemma padded_len_unat:
  assumes "0 < n" "n + 32 \<le> 2 ^ 64" "0 < k" "k \<le> 32"
  shows "unat (padded_len (of_nat n) (of_nat k)) = ((n - 1) div k + 1) * k"
proof -
  define q :: size_t where "q = (of_nat n - 1) div of_nat k"
  have n: "unat (of_nat n :: size_t) = n" and k: "unat (of_nat k :: size_t) = k"
    using assms by (simp_all add: unat_of_nat)
  have "unat ((of_nat n :: size_t) - 1) = n - 1"
    using assms n by (simp add: unat_sub word_le_nat_alt)
  then have q: "unat q = (n - 1) div k"
    by (simp only: q_def unat_div k)
  have le: "(n - 1) div k \<le> n - 1" by simp
  have q_le: "(n - 1) div k + 1 \<le> n"
    using le assms by linarith
  then have "(n - 1) div k + 1 < 2 ^ 64"
    using assms by simp
  then have q1: "unat (q + 1) = (n - 1) div k + 1"
    by (simp add: unat_word_ariths q)
  have "(n - 1) div k * k \<le> n - 1"
    by simp
  moreover have "((n - 1) div k + 1) * k = (n - 1) div k * k + k"
    by (simp add: algebra_simps)
  ultimately have "((n - 1) div k + 1) * k \<le> n - 1 + 32"
    using assms by linarith
  then have "((n - 1) div k + 1) * k < 2 ^ 64"
    using assms by linarith
  then have "unat ((q + 1) * of_nat k) = ((n - 1) div k + 1) * k"
    by (simp add: unat_word_ariths(2) q1 k)
  then show ?thesis
    by (simp only: padded_len_def q_def)
qed

lemma round_up_ge:
  assumes "0 < n" "0 < k"
  shows "n \<le> ((n - 1) div k + 1) * (k::nat)"
proof -
  have m: "(n - 1) mod k < k"
    using assms by simp
  have "(n - 1) div k * k + (n - 1) mod k = n - 1"
    by (rule div_mult_mod_eq)
  with m have "n - 1 < (n - 1) div k * k + k"
    by linarith
  moreover have "((n - 1) div k + 1) * k = (n - 1) div k * k + k"
    by (simp add: algebra_simps)
  ultimately show ?thesis
    using assms by linarith
qed

lemma minus_one_exact:
  assumes "0 < n" "n + 32 \<le> 2 ^ 64"
  shows "uint ((of_nat n :: size_t) - 1) = int n - 1"
proof -
  have "unat (of_nat n :: size_t) = n"
    using assms by (simp add: unat_of_nat)
  then have "unat ((of_nat n :: size_t) - 1) = n - 1"
    using assms by (simp add: unat_sub word_le_nat_alt)
  then have "uint ((of_nat n :: size_t) - 1) = int (n - 1)"
    by (simp only: uint_nat)
  then show ?thesis
    using assms by simp
qed

subsection \<open>The stand-in library and the concrete inputs\<close>

lemma xor_twice: "map ((\<lambda>b. b XOR m) \<circ> (\<lambda>b. b XOR (m::byte))) p = p"
  by (induction p) (simp_all add: xor.assoc)

lemma bytes_at_ptr: "length q = n \<Longrightarrow> n < 2 ^ 32 \<Longrightarrow> bytes_at (ptr q) (to_int (of_nat n)) = q"
  by (auto simp add: bytes_at_def ptr_def unat_to_int)

lemma bytes_at_tag: "bytes_at (ptr (replicate 16 x)) 16 = replicate 16 x"
  by (simp add: bytes_at_def ptr_def)

text \<open>
  Given an IV, the stand-in library seals and opens correctly at every input and from
  every state.
\<close>

lemma xor_seal_open:
  assumes "length p < 2 ^ 32" and "iv \<noteq> []"
  shows "seal_open_correct xor_evp s s' c key iv aad p"
  using assms
  by (cases aad)
     (simp_all add: seal_open_correct_def seal_calls_def open_calls_def answer_def Let_def
        evp_ok_def xor_mask_def xor_tag_def bytes_at_ptr bytes_at_tag xor_twice ptr_def [of iv])

lemma replicate_16: "replicate 16 x = [x, x, x, x, x, x, x, x, x, x, x, x, x, x, x, x]"
  by (simp add: eval_nat_numeral)

lemma length_tag16: "length tag16 = 16"
  by (simp add: tag16_def)

lemma length_hello: "length hello < 2 ^ 32"
  by (simp add: hello_def)

lemma iv12_not_Nil: "iv12 \<noteq> []"
  by (simp add: iv12_def)

lemma hello_not_Nil: "hello \<noteq> []"
  by (simp add: hello_def)


lemma Encrypt_hello:
  "outcome (Encrypt xor_evp zero_uninit [Buffer key16, Buffer iv12, Buffer hello, Null] xor_ctx0) =
   Inr \<lparr>ciphertext = [50, 63, 54, 54, 53], auth_tag = replicate 16 157\<rparr>"
  by (simp add: Encrypt_def arg_def cipher_for_def key16_def iv12_def hello_def Let_def evp_def
      zero_uninit_def xor_ctx0_def evp_ok_def set_outl_def store_nil CopyBuffer_store narrow_sum
      to_int_def AUTH_TAG_LEN_def xor_mask_def xor_tag_def Encrypt_alloc_def ptr_def bytes_at_def)

lemma Encrypt_hello_gcm:
  "list_all gcm_reports
     (trace (Encrypt xor_evp zero_uninit [Buffer key16, Buffer iv12, Buffer hello, Null] xor_ctx0))"
  by (simp add: Encrypt_trace [OF cipher_for_key16] seal_calls_def ptr_def iv12_def)

lemma Encrypt_hello_produced:
  "produced
     (trace (Encrypt xor_evp zero_uninit [Buffer key16, Buffer iv12, Buffer hello, Null] xor_ctx0))
   = Some 5"
  by (simp add: Encrypt_trace [OF cipher_for_key16] seal_calls_def hello_def to_int_def ptr_def
      iv12_def)



text \<open>Opening the ciphertext of "hello" with a tag of sixteen zero bytes, which is not its tag.\<close>

lemma Decrypt_hello_forged:
  "outcome (Decrypt xor_evp zero_uninit
     [Buffer key16, Buffer iv12, Buffer [50, 63, 54, 54, 53], Null, Buffer tag16] xor_ctx0) =
   Inr \<lparr>plaintext = hello, auth_ok = False\<rparr>"
  by (simp add: Decrypt_def arg_def cipher_for_def key16_def iv12_def hello_def tag16_def Let_def
      evp_def zero_uninit_def xor_ctx0_def evp_ok_def set_outl_def store_nil CopyBuffer_store
      narrow_sum to_int_def AUTH_TAG_LEN_def xor_mask_def xor_tag_def Decrypt_alloc_def replicate_16
      ptr_def bytes_at_def)



lemma Decrypt_hello_forged_produced:
  "produced
     (trace (Decrypt xor_evp zero_uninit
        [Buffer key16, Buffer iv12, Buffer [50, 63, 54, 54, 53], Null, Buffer tag16] xor_ctx0))
   = Some 5"
  by (simp add: Decrypt_trace [OF cipher_for_key16] open_calls_def tag16_def to_int_def ptr_def
      iv12_def)

text \<open>
  The two methods with an empty IV: the IV reaches the library as \<open>NULL\<close>, the context
  has no IV, and the updates and the finalization fail.
\<close>

lemma Encrypt_hello_no_iv:
  "outcome (Encrypt xor_evp zero_uninit [Buffer key16, Buffer [], Buffer hello, Null] xor_ctx0) =
   Inr \<lparr>ciphertext = [], auth_tag = tag16\<rparr>"
  by (simp add: Encrypt_def arg_def cipher_for_def key16_def hello_def tag16_def Let_def evp_def
      zero_uninit_def xor_ctx0_def evp_ok_def evp_failed_def set_outl_def store_nil narrow_sum
      to_int_def AUTH_TAG_LEN_def Encrypt_alloc_def CopyBuffer_0 CopyBuffer_const replicate_16
      ptr_def)


lemma Decrypt_empty_no_iv:
  "outcome (Decrypt xor_evp zero_uninit
     [Buffer key16, Buffer [], Buffer [], Null, Buffer tag16] xor_ctx0) =
   Inr \<lparr>plaintext = [], auth_ok = False\<rparr>"
  by (simp add: Decrypt_def arg_def cipher_for_def key16_def tag16_def Let_def evp_def
      zero_uninit_def xor_ctx0_def evp_ok_def evp_failed_def set_outl_def store_nil narrow_sum
      to_int_def AUTH_TAG_LEN_def Decrypt_alloc_def CopyBuffer_0 ptr_def bytes_at_def)

section \<open>The claims\<close>

text \<open>
  C1, as it holds: for a key of 16, 24 or 32 bytes, a plaintext of fewer than
  \<open>2\<^sup>3\<^sup>2\<close> bytes and associated data that is a buffer, \<open>null\<close> or \<open>undefined\<close>,
  opening what \<open>Encrypt\<close> returned, with the same key, IV and associated data, gives
  back the plaintext with \<open>auth_ok = true\<close>, provided the library seals and opens
  correctly at this input (\<open>seal_open_correct\<close>); this from every library state and
  for every content of the uninitialised memory.
\<close>

theorem round_trip:
  assumes "cipher_for (length key) = Some c"
    and "IsUndefined a \<or> IsNull a \<or> HasInstance a"
    and "length p < 2 ^ 32"
    and "seal_open_correct P s s' c key iv (aad_of a) p"
    and "outcome (Encrypt P u (Buffer key # Buffer iv # Buffer p # a # rest) s) = Inr e"
  shows "outcome (Decrypt P u'
           (Buffer key # Buffer iv # Buffer (ciphertext e) # a # Buffer (auth_tag e) # rest') s')
         = Inr \<lparr>plaintext = p, auth_ok = True\<rparr>"
  using assms
  by (cases a)
     (auto simp add: Encrypt_def Decrypt_def arg_def Let_def split_def evp_def seal_calls_def
        open_calls_def seal_open_correct_def answer_def AUTH_TAG_LEN_def set_outl_def store_nil
        narrow_sum unat_to_int CopyBuffer_store length_CopyBuffer)

theorem round_trip_witness:
  "cipher_for (length key16) = Some EVP_aes_128_gcm \<and>
   (IsUndefined Null \<or> IsNull Null \<or> HasInstance Null) \<and>
   length hello < 2 ^ 32 \<and>
   seal_open_correct xor_evp xor_ctx0 xor_ctx0 EVP_aes_128_gcm key16 iv12 (aad_of Null) hello \<and>
   outcome (Encrypt xor_evp zero_uninit [Buffer key16, Buffer iv12, Buffer hello, Null] xor_ctx0) =
     Inr \<lparr>ciphertext = [50, 63, 54, 54, 53], auth_tag = replicate 16 157\<rparr> \<and>
   outcome (Decrypt xor_evp zero_uninit
     [Buffer key16, Buffer iv12, Buffer [50, 63, 54, 54, 53], Null, Buffer (replicate 16 157)] xor_ctx0) =
     Inr \<lparr>plaintext = hello, auth_ok = True\<rparr>"
proof -
  have a: "IsUndefined Null \<or> IsNull Null \<or> HasInstance Null"
    by simp
  have c: "seal_open_correct xor_evp xor_ctx0 xor_ctx0 EVP_aes_128_gcm key16 iv12 (aad_of Null) hello"
    by (rule xor_seal_open [OF length_hello iv12_not_Nil])
  show ?thesis
    using round_trip [OF cipher_for_key16 a length_hello c Encrypt_hello,
        where u' = zero_uninit and rest' = "[]"] length_hello c
    by (simp add: cipher_for_key16 Encrypt_hello)
qed

text \<open>
  C1, as stated, fails: with an empty IV the methods hand the library a \<open>NULL\<close> IV, and
  on a library that seals and opens correctly whenever it has an IV, \<open>Encrypt\<close> returns
  an empty ciphertext for "hello" and \<open>Decrypt\<close>, given what \<open>Encrypt\<close> returned,
  returns an empty plaintext with \<open>auth_ok = false\<close>.
\<close>

theorem round_trip_counterexample:
  "cipher_for (length key16) = Some EVP_aes_128_gcm \<and>
   outcome (Encrypt xor_evp zero_uninit [Buffer key16, Buffer [], Buffer hello, Null] xor_ctx0) =
     Inr \<lparr>ciphertext = [], auth_tag = tag16\<rparr> \<and>
   outcome (Decrypt xor_evp zero_uninit
     [Buffer key16, Buffer [], Buffer [], Null, Buffer tag16] xor_ctx0) =
     Inr \<lparr>plaintext = [], auth_ok = False\<rparr> \<and>
   hello \<noteq> []"
  by (simp add: cipher_for_key16 Encrypt_hello_no_iv Decrypt_empty_no_iv hello_not_Nil)




text \<open>
  C3, as it holds: for a primary buffer of at least one byte the size computation does
  not wrap and yields a size of at least the length of the buffer; in \<open>Decrypt\<close>, and in
  \<open>Encrypt\<close> under a 16-byte key, it is the length rounded up to the next multiple of
  16. In a call in which the update of the primary buffer and the finalization each
  store a length, the length of the returned buffer is the sum of the two, the number of
  bytes the library reports as produced, read as an unsigned 32-bit number.
\<close>

theorem output_size:
  "(0 < n \<and> n + 32 \<le> 2 ^ 64 \<and> cipher_for k = Some c \<longrightarrow>
      uint ((of_nat n :: size_t) - 1) = int n - 1 \<and>
      n \<le> unat (Encrypt_alloc k n) \<and>
      unat (Encrypt_alloc 16 n) = ((n - 1) div 16 + 1) * 16 \<and>
      n \<le> unat (Decrypt_alloc n) \<and>
      unat (Decrypt_alloc n) = ((n - 1) div 16 + 1) * 16) \<and>
   (outcome (Encrypt P u info s) = Inr e \<and>
    produced (trace (Encrypt P u info s)) = Some l \<longrightarrow>
      length (ciphertext e) = unat l) \<and>
   (outcome (Decrypt P' u' info' s') = Inr d \<and>
    produced (trace (Decrypt P' u' info' s')) = Some l' \<longrightarrow>
      length (plaintext d) = unat l')"
proof -
  have sizes: "uint ((of_nat n :: size_t) - 1) = int n - 1 \<and>
      n \<le> unat (Encrypt_alloc k n) \<and>
      unat (Encrypt_alloc 16 n) = ((n - 1) div 16 + 1) * 16 \<and>
      n \<le> unat (Decrypt_alloc n) \<and>
      unat (Decrypt_alloc n) = ((n - 1) div 16 + 1) * 16"
    if n: "0 < n" "n + 32 \<le> 2 ^ 64" and k: "cipher_for k = Some c"
  proof -
    from k have k': "0 < k" "k \<le> 32"
      by (auto simp: cipher_for_def split: if_splits)
    have enc: "unat (Encrypt_alloc k n) = ((n - 1) div k + 1) * k"
      unfolding Encrypt_alloc_def by (rule padded_len_unat [OF n k'])
    have enc16: "unat (Encrypt_alloc 16 n) = ((n - 1) div 16 + 1) * 16"
      unfolding Encrypt_alloc_def using padded_len_unat [OF n, of 16] by simp
    have dec: "unat (Decrypt_alloc n) = ((n - 1) div 16 + 1) * 16"
      unfolding Decrypt_alloc_def using padded_len_unat [OF n, of 16] by simp
    show ?thesis
      using minus_one_exact [OF n] enc enc16 dec
        round_up_ge [OF n(1) k'(1)] round_up_ge [OF n(1), of 16]
      by simp
  qed
  show ?thesis
    using sizes
      Encrypt_length_produced [where P = P and u = u and info = info and s = s and e = e and l = l]
      Decrypt_length_produced [where P = P' and u = u' and info = info' and s = s' and d = d and l = l']
    by blast
qed

theorem output_size_witness:
  "0 < (5::nat) \<and> (5::nat) + 32 \<le> 2 ^ 64 \<and> cipher_for 24 = Some EVP_aes_192_gcm \<and>
   uint ((of_nat 5 :: size_t) - 1) = int 5 - 1 \<and>
   (5::nat) \<le> unat (Encrypt_alloc 24 5) \<and>
   unat (Encrypt_alloc 16 5) = 16 \<and> unat (Decrypt_alloc 5) = 16 \<and>
   outcome (Encrypt xor_evp zero_uninit [Buffer key16, Buffer iv12, Buffer hello, Null] xor_ctx0) =
     Inr \<lparr>ciphertext = [50, 63, 54, 54, 53], auth_tag = replicate 16 157\<rparr> \<and>
   produced
     (trace (Encrypt xor_evp zero_uninit [Buffer key16, Buffer iv12, Buffer hello, Null] xor_ctx0))
     = Some 5 \<and>
   length [50, 63, 54, 54, 53 :: byte] = unat (5 :: c_int) \<and>
   outcome (Decrypt xor_evp zero_uninit
     [Buffer key16, Buffer iv12, Buffer [50, 63, 54, 54, 53], Null, Buffer tag16] xor_ctx0) =
     Inr \<lparr>plaintext = hello, auth_ok = False\<rparr> \<and>
   produced
     (trace (Decrypt xor_evp zero_uninit
        [Buffer key16, Buffer iv12, Buffer [50, 63, 54, 54, 53], Null, Buffer tag16] xor_ctx0))
     = Some 5 \<and>
   length hello = unat (5 :: c_int)"
proof -
  have c: "cipher_for 24 = Some EVP_aes_192_gcm"
    by (simp add: cipher_for_def)
  show ?thesis
    using output_size [of 5 24 EVP_aes_192_gcm
        xor_evp zero_uninit "[Buffer key16, Buffer iv12, Buffer hello, Null]" xor_ctx0
        "\<lparr>ciphertext = [50, 63, 54, 54, 53], auth_tag = replicate 16 157\<rparr>" 5
        xor_evp zero_uninit
        "[Buffer key16, Buffer iv12, Buffer [50, 63, 54, 54, 53], Null, Buffer tag16]" xor_ctx0
        "\<lparr>plaintext = hello, auth_ok = False\<rparr>" 5]
    by (simp add: c Encrypt_hello Encrypt_hello_produced Decrypt_hello_forged
        Decrypt_hello_forged_produced)
qed

text \<open>
  C3, as stated, fails: for an empty buffer the subtraction \<open>len - 1\<close> wraps around to
  \<open>2\<^sup>6\<^sup>4 - 1\<close>, so that a 24-byte key gives an array of 8 bytes for no plaintext;
  and for 5 bytes under a 16-byte key both methods allocate 16 bytes, the length rounded
  up to a multiple of the block.
\<close>

theorem output_size_counterexample:
  "(0 :: size_t) - 1 = 18446744073709551615 \<and> Encrypt_alloc 24 0 = 8 \<and>
   Encrypt_alloc 16 5 = 16 \<and> Decrypt_alloc 5 = 16"
  by (simp add: Encrypt_alloc_def Decrypt_alloc_def padded_len_def)

text \<open>
  C4, as it holds: for every key whose length is not 16, 24 or 32 bytes, \<open>Encrypt\<close>
  throws the key-length error, and \<open>Decrypt\<close> throws it when the tag is 16 bytes long;
  with a tag of another length \<open>Decrypt\<close> throws the argument error, because its
  argument check comes first. In each case no EVP call is made, the library state is
  untouched and no object is returned.
\<close>

theorem key_length_rejected:
  assumes "length key \<notin> {16, 24, 32}" and "IsUndefined a \<or> IsNull a \<or> HasInstance a"
  shows "Encrypt P u (Buffer key # Buffer iv # Buffer p # a # rest) s =
           (Inl InvalidKeyLength, s, []) \<and>
         Decrypt P u (Buffer key # Buffer iv # Buffer ct # a # Buffer tag # rest') s =
           (Inl (if length tag = 16 then InvalidKeyLength else InvalidArguments), s, [])"
  using assms
  by (auto simp: Encrypt_def Decrypt_def arg_def cipher_for_def AUTH_TAG_LEN_def)

theorem key_length_rejected_witness:
  "length key15 \<notin> {16, 24, 32} \<and> (IsUndefined Null \<or> IsNull Null \<or> HasInstance Null) \<and>
   Encrypt xor_evp zero_uninit [Buffer key15, Buffer iv12, Buffer hello, Null] xor_ctx0 =
     (Inl InvalidKeyLength, xor_ctx0, []) \<and>
   Decrypt xor_evp zero_uninit [Buffer key15, Buffer iv12, Buffer hello, Null, Buffer tag16] xor_ctx0 =
     (Inl InvalidKeyLength, xor_ctx0, [])"
proof -
  have k: "length key15 \<notin> {16, 24, 32}"
    by (simp add: key15_def)
  have a: "IsUndefined Null \<or> IsNull Null \<or> HasInstance Null"
    by simp
  show ?thesis
    using k key_length_rejected [OF k a,
        where P = xor_evp and u = zero_uninit and iv = iv12 and p = hello and rest = "[]"
          and s = xor_ctx0 and ct = hello and tag = tag16 and rest' = "[]"]
    by (simp add: length_tag16)
qed

text \<open>
  C4, as stated, fails: a 15-byte key together with a 12-byte tag makes \<open>Decrypt\<close>
  throw the argument error, not the key-length error.
\<close>

theorem key_length_rejected_counterexample:
  "length key15 \<notin> {16, 24, 32} \<and>
   outcome (Decrypt failing_evp zero_uninit
              [Buffer key15, Buffer iv12, Buffer hello, Null, Buffer tag12] ())
     = Inl InvalidArguments \<and>
   outcome (Decrypt failing_evp zero_uninit
              [Buffer key15, Buffer iv12, Buffer hello, Null, Buffer tag12] ())
     \<noteq> Inl InvalidKeyLength"
  by (simp add: Decrypt_def arg_def key15_def tag12_def AUTH_TAG_LEN_def)

text \<open>
  C5: a \<open>Decrypt\<close> call whose fifth argument is a buffer of a length other than 16
  throws the argument error; no EVP call is made, the library state is untouched and no
  object is returned.
\<close>

theorem tag_length_rejected:
  "arg info 4 = Buffer tag \<Longrightarrow> length tag \<noteq> 16 \<Longrightarrow>
   Decrypt P u info s = (Inl InvalidArguments, s, [])"
  by (simp add: Decrypt_def AUTH_TAG_LEN_def)

theorem tag_length_rejected_witness:
  "arg [Buffer key16, Buffer iv12, Buffer hello, Null, Buffer tag12] 4 = Buffer tag12 \<and>
   length tag12 \<noteq> 16 \<and>
   Decrypt xor_evp zero_uninit [Buffer key16, Buffer iv12, Buffer hello, Null, Buffer tag12] xor_ctx0
     = (Inl InvalidArguments, xor_ctx0, [])"
proof -
  have a: "arg [Buffer key16, Buffer iv12, Buffer hello, Null, Buffer tag12] 4 = Buffer tag12"
    by (simp add: arg_def)
  have l: "length tag12 \<noteq> 16"
    by (simp add: tag12_def)
  show ?thesis
    using a l tag_length_rejected [OF a l, of xor_evp zero_uninit xor_ctx0] by simp
qed




text \<open>
  C7: with valid arguments, the EVP calls of \<open>Encrypt\<close> are those of the sealing
  sequence and the EVP calls of \<open>Decrypt\<close> those of the opening sequence, each in that
  order and each answered by the library in the state the preceding calls left: cipher,
  IV length, key and IV first, then the associated data if there is a buffer of them, then
  the primary buffer, then the finalization; in \<open>Decrypt\<close> the tag is set before the
  finalization, and \<open>auth_ok\<close> is the return value of the finalization.
\<close>

theorem call_order:
  assumes "cipher_for (length key) = Some c"
    and "IsUndefined a \<or> IsNull a \<or> HasInstance a"
    and "length tag = 16"
  shows "trace (Encrypt P u (Buffer key # Buffer iv # Buffer p # a # rest) s) =
           evp_run P (seal_calls c key iv (aad_of a) p) s \<and>
         trace (Decrypt P u (Buffer key # Buffer iv # Buffer ct # a # Buffer tag # rest') s) =
           evp_run P (open_calls c key iv (aad_of a) ct tag) s \<and>
         (\<exists>d. outcome (Decrypt P u (Buffer key # Buffer iv # Buffer ct # a # Buffer tag # rest') s)
                = Inr d \<and>
              auth_ok d =
                (ret (answer
                   (trace (Decrypt P u (Buffer key # Buffer iv # Buffer ct # a # Buffer tag # rest') s))
                   DecryptFinal_ex) \<noteq> 0))"
proof -
  obtain d where
    d: "outcome (Decrypt P u (Buffer key # Buffer iv # Buffer ct # a # Buffer tag # rest') s) = Inr d"
    using Decrypt_returns [OF assms,
        where P = P and u = u and iv = iv and ct = ct and rest = rest' and s = s]
    by blast
  show ?thesis
    using Encrypt_trace [OF assms(1,2),
        where P = P and u = u and iv = iv and p = p and rest = rest and s = s]
      Decrypt_trace [OF assms,
        where P = P and u = u and iv = iv and ct = ct and rest = rest' and s = s]
      d Decrypt_verdict [OF assms d]
    by blast
qed

theorem call_order_witness:
  "cipher_for (length key16) = Some EVP_aes_128_gcm \<and>
   (IsUndefined (Buffer [1, 2]) \<or> IsNull (Buffer [1, 2]) \<or> HasInstance (Buffer [1, 2])) \<and>
   length tag16 = 16 \<and>
   map fst (trace (Encrypt xor_evp zero_uninit
              [Buffer key16, Buffer iv12, Buffer hello, Buffer [1, 2]] xor_ctx0)) =
     [CIPHER_CTX_new,
      EncryptInit_ex (Some EVP_aes_128_gcm) None None,
      CTRL_GCM_SET_IVLEN 12,
      EncryptInit_ex None (Some key16) (Some iv12),
      EncryptUpdate False (Some [1, 2]) 2,
      EncryptUpdate True (Some hello) 5,
      EncryptFinal_ex,
      CTRL_GCM_GET_TAG 16,
      CIPHER_CTX_free] \<and>
   map fst (trace (Decrypt xor_evp zero_uninit
              [Buffer key16, Buffer iv12, Buffer hello, Buffer [1, 2], Buffer tag16] xor_ctx0)) =
     [CIPHER_CTX_new,
      DecryptInit_ex (Some EVP_aes_128_gcm) None None,
      CTRL_GCM_SET_IVLEN 12,
      DecryptInit_ex None (Some key16) (Some iv12),
      DecryptUpdate False (Some [1, 2]) 2,
      DecryptUpdate True (Some hello) 5,
      CTRL_GCM_SET_TAG 16 (Some tag16),
      DecryptFinal_ex,
      CIPHER_CTX_free]"
proof -
  have a: "IsUndefined (Buffer [1, 2]) \<or> IsNull (Buffer [1, 2]) \<or> HasInstance (Buffer [1, 2])"
    by simp
  have n: "length iv12 = 12" "length hello = 5"
    by (simp_all add: iv12_def hello_def)
  have p: "ptr key16 = Some key16" "ptr iv12 = Some iv12" "ptr hello = Some hello"
    "ptr tag16 = Some tag16"
    by (simp_all add: ptr_def key16_def iv12_def hello_def tag16_def)
  show ?thesis
    using call_order [OF cipher_for_key16 a length_tag16,
        where P = xor_evp and u = zero_uninit and iv = iv12 and p = hello and rest = "[]"
          and s = xor_ctx0 and ct = hello and rest' = "[]"]
    by (simp add: cipher_for_key16 length_tag16 map_fst_evp_run seal_calls_def open_calls_def
        to_int_def n p ptr_def [of "[1, 2]"])
qed




text \<open>
  C9: with \<open>undefined\<close> or \<open>null\<close> for the associated data, neither method makes an
  update call with a \<open>NULL\<close> output pointer; with a buffer of length zero, each makes
  exactly one, over zero bytes.
\<close>

theorem aad_absent_or_empty:
  assumes "cipher_for (length key) = Some c" and "length tag = 16"
  shows
    "filter is_aad_update
       (map fst (trace (Encrypt P u (Buffer key # Buffer iv # Buffer p # Undefined # rest) s))) = [] \<and>
     filter is_aad_update
       (map fst (trace (Encrypt P u (Buffer key # Buffer iv # Buffer p # Null # rest) s))) = [] \<and>
     filter is_aad_update
       (map fst (trace (Encrypt P u (Buffer key # Buffer iv # Buffer p # Buffer [] # rest) s))) =
       [EncryptUpdate False None 0] \<and>
     filter is_aad_update
       (map fst (trace (Decrypt P u
          (Buffer key # Buffer iv # Buffer ct # Undefined # Buffer tag # rest') s))) = [] \<and>
     filter is_aad_update
       (map fst (trace (Decrypt P u
          (Buffer key # Buffer iv # Buffer ct # Null # Buffer tag # rest') s))) = [] \<and>
     filter is_aad_update
       (map fst (trace (Decrypt P u
          (Buffer key # Buffer iv # Buffer ct # Buffer [] # Buffer tag # rest') s))) =
       [DecryptUpdate False None 0]"
  using assms
  by (simp add: Encrypt_trace Decrypt_trace map_fst_evp_run seal_calls_def open_calls_def to_int_def
      ptr_def [of "[]"])

theorem aad_absent_or_empty_witness:
  "cipher_for (length key16) = Some EVP_aes_128_gcm \<and> length tag16 = 16 \<and>
   filter is_aad_update
     (map fst (trace (Encrypt xor_evp zero_uninit
        [Buffer key16, Buffer iv12, Buffer hello, Null] xor_ctx0))) = [] \<and>
   filter is_aad_update
     (map fst (trace (Encrypt xor_evp zero_uninit
        [Buffer key16, Buffer iv12, Buffer hello, Buffer []] xor_ctx0))) =
     [EncryptUpdate False None 0] \<and>
   filter is_aad_update
     (map fst (trace (Decrypt xor_evp zero_uninit
        [Buffer key16, Buffer iv12, Buffer hello, Null, Buffer tag16] xor_ctx0))) = [] \<and>
   filter is_aad_update
     (map fst (trace (Decrypt xor_evp zero_uninit
        [Buffer key16, Buffer iv12, Buffer hello, Buffer [], Buffer tag16] xor_ctx0))) =
     [DecryptUpdate False None 0]"
proof -
  show ?thesis
    using aad_absent_or_empty [OF cipher_for_key16 length_tag16,
        where P = xor_evp and u = zero_uninit and iv = iv12 and p = hello and rest = "[]"
          and s = xor_ctx0 and ct = hello and rest' = "[]"]
    by (simp add: cipher_for_key16 length_tag16)
qed

text \<open>
  C10: in \<open>Decrypt\<close> the argument check, which includes the length of the tag, comes
  before the key-length check: a call with a key of invalid length and a fifth argument
  that is not 16 bytes long throws the argument error, not the key-length error.
\<close>

theorem arguments_checked_before_key:
  "arg info 0 = Buffer key \<Longrightarrow> length key \<notin> {16, 24, 32} \<Longrightarrow> Length (arg info 4) \<noteq> 16 \<Longrightarrow>
   outcome (Decrypt P u info s) = Inl InvalidArguments \<and>
   outcome (Decrypt P u info s) \<noteq> Inl InvalidKeyLength"
  by (simp add: Decrypt_def AUTH_TAG_LEN_def)

theorem arguments_checked_before_key_witness:
  "arg [Buffer key15, Buffer iv12, Buffer hello, Null, Buffer tag12] 0 = Buffer key15 \<and>
   length key15 \<notin> {16, 24, 32} \<and>
   Length (arg [Buffer key15, Buffer iv12, Buffer hello, Null, Buffer tag12] 4) \<noteq> 16 \<and>
   outcome (Decrypt xor_evp zero_uninit
              [Buffer key15, Buffer iv12, Buffer hello, Null, Buffer tag12] xor_ctx0)
     = Inl InvalidArguments"
proof -
  have a: "arg [Buffer key15, Buffer iv12, Buffer hello, Null, Buffer tag12] 0 = Buffer key15"
    by (simp add: arg_def)
  have k: "length key15 \<notin> {16, 24, 32}"
    by (simp add: key15_def)
  have l: "Length (arg [Buffer key15, Buffer iv12, Buffer hello, Null, Buffer tag12] 4) \<noteq> 16"
    by (simp add: arg_def tag12_def)
  show ?thesis
    using a k l arguments_checked_before_key [OF a k l, of xor_evp zero_uninit xor_ctx0] by simp
qed

end
